theory Spec2Isabelle
  imports Main "HOL-Library.Word" "HOL-Library.Sublist"
begin

section \<open>Transport codes of \<^verbatim>\<open>system/types/bt_transport.h\<close>\<close>

text \<open>
  The header declares \<^verbatim>\<open>typedef uint8_t tBT_TRANSPORT\<close>: a transport code is one
  unsigned byte.
\<close>

type_synonym tBT_TRANSPORT = "8 word"

text \<open>
  The three object-like macros of the header. Their replacement lists are the integer
  literals \<^verbatim>\<open>0\<close>, \<^verbatim>\<open>1\<close> and \<^verbatim>\<open>2\<close>, of C++ type \<^verbatim>\<open>int\<close>.
\<close>

definition BT_TRANSPORT_AUTO :: int where
  "BT_TRANSPORT_AUTO = 0"

definition BT_TRANSPORT_BR_EDR :: int where
  "BT_TRANSPORT_BR_EDR = 1"

definition BT_TRANSPORT_LE :: int where
  "BT_TRANSPORT_LE = 2"

subsection \<open>The preprocessor directives of the header\<close>

text \<open>
  The header defines four macros and removes one of them again in its last line:
  \<^verbatim>\<open>CASE_RETURN_TEXT(code)\<close> is function-like and local to the header. A macro is
  visible to an including file when it is still defined at the end of the header.
  \<^verbatim>\<open>#pragma once\<close> and \<^verbatim>\<open>#include <string>\<close> define no macro of this header;
  what the standard header defines is not counted among this header's own constants.
\<close>

datatype macro_body = Object_like int | Function_like

datatype directive =
    Pragma string
  | Include string
  | Define string macro_body
  | Undef string

type_synonym macro_table = "(string \<times> macro_body) list"

fun apply_directive :: "macro_table \<Rightarrow> directive \<Rightarrow> macro_table" where
  "apply_directive tbl (Define name body) = filter (\<lambda>e. fst e \<noteq> name) tbl @ [(name, body)]"
| "apply_directive tbl (Undef name) = filter (\<lambda>e. fst e \<noteq> name) tbl"
| "apply_directive tbl (Pragma _) = tbl"
| "apply_directive tbl (Include _) = tbl"

definition bt_transport_h_directives :: "directive list" where
  "bt_transport_h_directives =
    [Pragma ''once'',
     Include ''string'',
     Define ''BT_TRANSPORT_AUTO'' (Object_like 0),
     Define ''BT_TRANSPORT_BR_EDR'' (Object_like 1),
     Define ''BT_TRANSPORT_LE'' (Object_like 2),
     Define ''CASE_RETURN_TEXT'' Function_like,
     Undef ''CASE_RETURN_TEXT'']"

definition exported_macros :: macro_table where
  "exported_macros = foldl apply_directive [] bt_transport_h_directives"

fun integer_constants :: "macro_table \<Rightarrow> (string \<times> int) list" where
  "integer_constants [] = []"
| "integer_constants ((name, Object_like v) # tbl) = (name, v) # integer_constants tbl"
| "integer_constants ((name, Function_like) # tbl) = integer_constants tbl"

subsection \<open>\<^verbatim>\<open>std::to_string(int)\<close>\<close>

text \<open>
  The fallback branch calls \<^verbatim>\<open>std::to_string(transport)\<close>, a function of the C++
  standard library and not of this header; it is modelled here as the C++ standard
  defines it. There is no overload for \<^verbatim>\<open>uint8_t\<close>; the argument is promoted to
  \<^verbatim>\<open>int\<close> and the \<^verbatim>\<open>int\<close> overload is chosen, which the standard defines as the
  output of \<^verbatim>\<open>sprintf\<close> with \<^verbatim>\<open>%d\<close>: an optional minus sign and the decimal digits,
  most significant first, without leading zeros.
\<close>

definition digit_char :: "nat \<Rightarrow> char" where
  "digit_char d = char_of (of_char CHR ''0'' + d)"

fun nat_digits :: "nat \<Rightarrow> string" where
  "nat_digits n =
    (if n < 10 then [digit_char n]
     else nat_digits (n div 10) @ [digit_char (n mod 10)])"

declare nat_digits.simps [simp del]

definition to_string :: "int \<Rightarrow> string" where
  "to_string i =
    (if i < 0 then CHR ''-'' # nat_digits (nat (- i)) else nat_digits (nat i))"

subsection \<open>\<^verbatim>\<open>bt_transport_text\<close>\<close>

text \<open>
  The \<^verbatim>\<open>switch\<close> promotes the byte to \<^verbatim>\<open>int\<close> and compares it with the three case
  labels in turn. \<^verbatim>\<open>CASE_RETURN_TEXT(code)\<close> expands to
  \<^verbatim>\<open>case code: return #code\<close>; the operand of \<^verbatim>\<open>#\<close> is not macro-expanded, so the
  string returned is the spelling of the macro's name, while the case label is the
  macro's value.
\<close>

definition bt_transport_text :: "tBT_TRANSPORT \<Rightarrow> string" where
  "bt_transport_text transport =
    (if uint transport = BT_TRANSPORT_AUTO then ''BT_TRANSPORT_AUTO''
     else if uint transport = BT_TRANSPORT_BR_EDR then ''BT_TRANSPORT_BR_EDR''
     else if uint transport = BT_TRANSPORT_LE then ''BT_TRANSPORT_LE''
     else ''UNKNOWN['' @ to_string (uint transport) @ '']'')"

subsection \<open>The body of \<^verbatim>\<open>bt_transport_text\<close> as a program over the memory\<close>

text \<open>
  The parameter is \<^verbatim>\<open>const tBT_TRANSPORT&\<close>: the caller passes the address of a byte, and
  the body reads the code through it each time it mentions \<^verbatim>\<open>transport\<close>. To speak about
  what a call does to the memory, and about a call that would not return, the body is
  written down statement by statement and run by an interpreter that threads the
  memory through.

  The memory holds one byte at every address; it stands for every object that outlives
  the call: the caller's variable, globals and statics.
\<close>

type_synonym address = nat
type_synonym memory = "address \<Rightarrow> 8 word"

text \<open>
  An lvalue is the reference parameter or an object at a fixed address. The body of
  \<^verbatim>\<open>bt_transport_text\<close> only ever names the parameter; the other lvalue and the
  assignment below are what a body with hidden state or a side effect would use.
\<close>

datatype lvalue = Ref_param | Global address

datatype int_expr = Read lvalue | Literal int

datatype string_expr =
    String_literal string
  | Std_to_string int_expr
  | Plus string_expr string_expr

datatype stmt = Return string_expr | Assign lvalue int_expr

datatype switch_label = Case int | Default

type_synonym switch_body = "(switch_label \<times> stmt) list"

text \<open>
  A call ends by a \<^verbatim>\<open>return\<close> statement, or control reaches the closing brace of the
  function without one: for a function returning \<^verbatim>\<open>std::string\<close> that is undefined
  behaviour, the failure a \<^verbatim>\<open>switch\<close> with a missing case produces.
\<close>

datatype outcome = Returned string | Fell_off_end

fun address_of :: "address \<Rightarrow> lvalue \<Rightarrow> address" where
  "address_of ref Ref_param = ref"
| "address_of ref (Global a) = a"

text \<open>Reading a \<^verbatim>\<open>uint8_t\<close> in an expression promotes it to \<^verbatim>\<open>int\<close>.\<close>

fun eval_int :: "address \<Rightarrow> memory \<Rightarrow> int_expr \<Rightarrow> int" where
  "eval_int ref mem (Read lv) = uint (mem (address_of ref lv))"
| "eval_int ref mem (Literal i) = i"

fun eval_string :: "address \<Rightarrow> memory \<Rightarrow> string_expr \<Rightarrow> string" where
  "eval_string ref mem (String_literal s) = s"
| "eval_string ref mem (Std_to_string e) = to_string (eval_int ref mem e)"
| "eval_string ref mem (Plus a b) = eval_string ref mem a @ eval_string ref mem b"

text \<open>
  The statements of a \<^verbatim>\<open>switch\<close> body run in order from the label that was jumped to;
  labels passed on the way are ignored (fall-through). An assignment converts the
  \<^verbatim>\<open>int\<close> back to a byte.
\<close>

fun exec_from :: "address \<Rightarrow> switch_body \<Rightarrow> memory \<Rightarrow> outcome \<times> memory" where
  "exec_from ref [] mem = (Fell_off_end, mem)"
| "exec_from ref ((l, Return e) # rest) mem = (Returned (eval_string ref mem e), mem)"
| "exec_from ref ((l, Assign lv e) # rest) mem =
    exec_from ref rest (mem (address_of ref lv := word_of_int (eval_int ref mem e)))"

fun find_label :: "switch_label \<Rightarrow> switch_body \<Rightarrow> switch_body option" where
  "find_label l [] = None"
| "find_label l ((l', s) # rest) =
    (if l' = l then Some ((l', s) # rest) else find_label l rest)"

text \<open>
  \<^verbatim>\<open>switch (e) { ... }\<close> as the last statement of a function: control jumps to the case
  label that equals the value of \<^verbatim>\<open>e\<close>, else to \<^verbatim>\<open>default\<close>, and when there is neither
  the whole \<^verbatim>\<open>switch\<close> is skipped and the function ends without a \<^verbatim>\<open>return\<close>.
\<close>

definition exec_switch ::
  "address \<Rightarrow> int_expr \<Rightarrow> switch_body \<Rightarrow> memory \<Rightarrow> outcome \<times> memory" where
  "exec_switch ref e body mem =
    (case find_label (Case (eval_int ref mem e)) body of
       Some stmts \<Rightarrow> exec_from ref stmts mem
     | None \<Rightarrow>
        (case find_label Default body of
           Some stmts \<Rightarrow> exec_from ref stmts mem
         | None \<Rightarrow> (Fell_off_end, mem)))"

text \<open>
  The body of \<^verbatim>\<open>bt_transport_text\<close> after macro expansion: the condition
  \<^verbatim>\<open>transport\<close>, three cases that return the name of their constant, and the default
  that returns
  \<^verbatim>\<open>std::string("UNKNOWN[") + std::to_string(transport) + std::string("]")\<close>.
\<close>

definition bt_transport_text_condition :: int_expr where
  "bt_transport_text_condition = Read Ref_param"

definition bt_transport_text_switch :: switch_body where
  "bt_transport_text_switch =
    [(Case BT_TRANSPORT_AUTO, Return (String_literal ''BT_TRANSPORT_AUTO'')),
     (Case BT_TRANSPORT_BR_EDR, Return (String_literal ''BT_TRANSPORT_BR_EDR'')),
     (Case BT_TRANSPORT_LE, Return (String_literal ''BT_TRANSPORT_LE'')),
     (Default,
      Return (Plus (Plus (String_literal ''UNKNOWN['') (Std_to_string (Read Ref_param)))
                (String_literal '']'')))]"

text \<open>A call with the reference bound to the byte at address \<open>transport\<close>.\<close>

definition bt_transport_text_call :: "address \<Rightarrow> memory \<Rightarrow> outcome \<times> memory" where
  "bt_transport_text_call transport mem =
    exec_switch transport bt_transport_text_condition bt_transport_text_switch mem"

subsection \<open>Decimal representations, as the specification speaks of them\<close>

text \<open>
  The specification describes the fallback label by "the decimal representation of the
  input integer". Independently of \<^const>\<open>nat_digits\<close>, a string is the decimal
  representation of \<open>n\<close> when it is a non-empty string of the digits 0 to 9, has no
  leading zero unless it is the single digit, and its positional value in base ten
  is \<open>n\<close>.
\<close>

definition is_digit :: "char \<Rightarrow> bool" where
  "is_digit c = (c \<in> set ''0123456789'')"

definition digit_value :: "char \<Rightarrow> nat" where
  "digit_value c = of_char c - of_char CHR ''0''"

definition dec_value :: "string \<Rightarrow> nat" where
  "dec_value s = foldl (\<lambda>a c. 10 * a + digit_value c) 0 s"

definition decimal_representation :: "string \<Rightarrow> nat \<Rightarrow> bool" where
  "decimal_representation s n =
    (s \<noteq> [] \<and> list_all is_digit s \<and> (1 < length s \<longrightarrow> hd s \<noteq> CHR ''0'') \<and> dec_value s = n)"

section \<open>Decimal digits\<close>

lemma digit_char_table:
  "digit_char 0 = CHR ''0''" "digit_char 1 = CHR ''1''" "digit_char 2 = CHR ''2''"
  "digit_char 3 = CHR ''3''" "digit_char 4 = CHR ''4''" "digit_char 5 = CHR ''5''"
  "digit_char 6 = CHR ''6''" "digit_char 7 = CHR ''7''" "digit_char 8 = CHR ''8''"
  "digit_char 9 = CHR ''9''" "digit_char (Suc 0) = CHR ''1''"
  by code_simp+

lemma lt10_cases:
  fixes d :: nat
  assumes "d < 10"
  shows "d = 0 \<or> d = 1 \<or> d = 2 \<or> d = 3 \<or> d = 4 \<or> d = 5 \<or> d = 6 \<or> d = 7 \<or> d = 8 \<or> d = 9"
  using assms by arith

lemma is_digit_digit_char: "d < 10 \<Longrightarrow> is_digit (digit_char d)"
  using lt10_cases [of d] by (auto simp: digit_char_table is_digit_def)

lemma digit_value_digit_char: "d < 10 \<Longrightarrow> digit_value (digit_char d) = d"
  using lt10_cases [of d] by (auto simp: digit_char_table digit_value_def)

lemma digit_char_eq_zero: "d < 10 \<Longrightarrow> digit_char d = CHR ''0'' \<longleftrightarrow> d = 0"
  using lt10_cases [of d] by (auto simp: digit_char_table)

lemma nat_digits_small: "n < 10 \<Longrightarrow> nat_digits n = [digit_char n]"
  by (simp add: nat_digits.simps)

lemma nat_digits_large:
  "10 \<le> n \<Longrightarrow> nat_digits n = nat_digits (n div 10) @ [digit_char (n mod 10)]"
  by (subst nat_digits.simps) simp

lemma nat_digits_nonempty: "nat_digits n \<noteq> []"
  by (subst nat_digits.simps) simp

lemma dec_value_snoc: "dec_value (s @ [c]) = 10 * dec_value s + digit_value c"
  by (simp add: dec_value_def)

lemma dec_value_nat_digits: "dec_value (nat_digits n) = n"
proof (induction n rule: nat_digits.induct)
  case (1 n)
  show ?case
  proof (cases "n < 10")
    case True
    then show ?thesis
      by (simp add: nat_digits_small dec_value_def digit_value_digit_char)
  next
    case False
    then have "dec_value (nat_digits (n div 10)) = n div 10"
      using 1 by simp
    with False show ?thesis
      by (simp add: nat_digits_large dec_value_snoc digit_value_digit_char)
  qed
qed

lemma nat_digits_all_digits: "list_all is_digit (nat_digits n)"
proof (induction n rule: nat_digits.induct)
  case (1 n)
  show ?case
  proof (cases "n < 10")
    case True
    then show ?thesis by (simp add: nat_digits_small is_digit_digit_char)
  next
    case False
    then show ?thesis using 1 by (simp add: nat_digits_large is_digit_digit_char)
  qed
qed

lemma hd_nat_digits: "0 < n \<Longrightarrow> hd (nat_digits n) \<noteq> CHR ''0''"
proof (induction n rule: nat_digits.induct)
  case (1 n)
  show ?case
  proof (cases "n < 10")
    case True
    then show ?thesis using 1(2) by (simp add: nat_digits_small digit_char_eq_zero)
  next
    case False
    then have "hd (nat_digits (n div 10)) \<noteq> CHR ''0''"
      using 1(1) by simp
    with False show ?thesis
      by (simp add: nat_digits_large nat_digits_nonempty)
  qed
qed

lemma length_nat_digits_1: "n < 10 \<Longrightarrow> length (nat_digits n) = 1"
  by (simp add: nat_digits_small)

lemma length_nat_digits_2: "10 \<le> n \<Longrightarrow> n < 100 \<Longrightarrow> length (nat_digits n) = 2"
  by (simp add: nat_digits_large length_nat_digits_1)

lemma length_nat_digits_3:
  assumes "100 \<le> n" and "n < 1000"
  shows "length (nat_digits n) = 3"
proof -
  have "10 \<le> n div 10" and "n div 10 < 100"
    using assms by arith+
  then have "length (nat_digits (n div 10)) = 2"
    by (rule length_nat_digits_2)
  moreover have "nat_digits n = nat_digits (n div 10) @ [digit_char (n mod 10)]"
    using assms by (intro nat_digits_large) simp
  ultimately show ?thesis by simp
qed

lemma length_nat_digits_byte: "n < 256 \<Longrightarrow> 1 \<le> length (nat_digits n) \<and> length (nat_digits n) \<le> 3"
  using length_nat_digits_1 [of n] length_nat_digits_2 [of n] length_nat_digits_3 [of n]
  by (cases "n < 10"; cases "n < 100") auto

lemma nat_digits_decimal: "decimal_representation (nat_digits n) n"
proof -
  have "1 < length (nat_digits n) \<longrightarrow> hd (nat_digits n) \<noteq> CHR ''0''"
  proof
    assume "1 < length (nat_digits n)"
    then have "0 < n" by (cases "n = 0") (simp_all add: nat_digits_small)
    then show "hd (nat_digits n) \<noteq> CHR ''0''" by (rule hd_nat_digits)
  qed
  then show ?thesis
    by (simp add: decimal_representation_def nat_digits_nonempty nat_digits_all_digits
        dec_value_nat_digits)
qed

lemma nat_digits_inj: "nat_digits a = nat_digits b \<Longrightarrow> a = b"
  by (metis dec_value_nat_digits)

lemma to_string_byte: "to_string (uint (t :: 8 word)) = nat_digits (unat t)"
  by (simp add: to_string_def)

lemma unat_byte: "unat (t :: 8 word) < 256"
  using unsigned_less [of t] by simp

lemma recognised_iff:
  "(t :: 8 word) = 0 \<longleftrightarrow> uint t = 0" "(t :: 8 word) = 1 \<longleftrightarrow> uint t = 1" "(t :: 8 word) = 2 \<longleftrightarrow> uint t = 2"
  by (simp_all add: word_uint_eq_iff)

lemma is_digit_cases:
  "is_digit c \<Longrightarrow> digit_value c < 10 \<and> digit_char (digit_value c) = c"
  by (auto simp: is_digit_def digit_value_def digit_char_table)

lemma is_digit_nonzero: "is_digit c \<Longrightarrow> c \<noteq> CHR ''0'' \<Longrightarrow> 0 < digit_value c"
  by (auto simp: is_digit_def digit_value_def)

lemma dec_value_positive:
  "s \<noteq> [] \<Longrightarrow> list_all is_digit s \<Longrightarrow> hd s \<noteq> CHR ''0'' \<Longrightarrow> 0 < dec_value s"
proof (induction s rule: rev_induct)
  case Nil
  then show ?case by simp
next
  case (snoc c xs)
  show ?case
  proof (cases "xs = []")
    case True
    with snoc.prems show ?thesis
      by (simp add: dec_value_def is_digit_nonzero)
  next
    case False
    with snoc have "0 < dec_value xs" by simp
    then show ?thesis by (simp add: dec_value_snoc)
  qed
qed

lemma decimal_representation_unique:
  "decimal_representation s n \<Longrightarrow> s = nat_digits n"
proof (induction s arbitrary: n rule: rev_induct)
  case Nil
  then show ?case by (simp add: decimal_representation_def)
next
  case (snoc c xs)
  from snoc.prems have c: "is_digit c" and xs: "list_all is_digit xs"
    and n: "n = 10 * dec_value xs + digit_value c"
    by (simp_all add: decimal_representation_def dec_value_snoc)
  from c have c10: "digit_value c < 10" and cc: "digit_char (digit_value c) = c"
    using is_digit_cases by simp_all
  show ?case
  proof (cases "xs = []")
    case True
    with n c10 cc show ?thesis
      by (simp add: dec_value_def nat_digits_small)
  next
    case False
    with snoc.prems have hd: "hd xs \<noteq> CHR ''0''"
      by (simp add: decimal_representation_def)
    with False xs have pos: "0 < dec_value xs"
      by (simp add: dec_value_positive)
    from False xs hd have "decimal_representation xs (dec_value xs)"
      by (simp add: decimal_representation_def)
    then have "xs = nat_digits (dec_value xs)"
      by (rule snoc.IH)
    moreover from n c10 have "n div 10 = dec_value xs" and "n mod 10 = digit_value c"
      by simp_all
    moreover from n pos have "10 \<le> n" by simp
    ultimately show ?thesis
      using cc by (simp add: nat_digits_large)
  qed
qed

lemma bt_transport_text_fallback:
  "t \<notin> {0, 1, 2} \<Longrightarrow> bt_transport_text t = ''UNKNOWN['' @ nat_digits (unat t) @ '']''"
  by (simp add: bt_transport_text_def BT_TRANSPORT_AUTO_def BT_TRANSPORT_BR_EDR_def
      BT_TRANSPORT_LE_def recognised_iff to_string_byte)

lemma bt_transport_text_names:
  "bt_transport_text 0 = ''BT_TRANSPORT_AUTO''"
  "bt_transport_text 1 = ''BT_TRANSPORT_BR_EDR''"
  "bt_transport_text 2 = ''BT_TRANSPORT_LE''"
  by (simp_all add: bt_transport_text_def BT_TRANSPORT_AUTO_def BT_TRANSPORT_BR_EDR_def
      BT_TRANSPORT_LE_def)

lemma bt_transport_text_call_run:
  "bt_transport_text_call ref mem = (Returned (bt_transport_text (mem ref)), mem)"
  by (simp add: bt_transport_text_call_def exec_switch_def bt_transport_text_condition_def
      bt_transport_text_switch_def bt_transport_text_def BT_TRANSPORT_AUTO_def
      BT_TRANSPORT_BR_EDR_def BT_TRANSPORT_LE_def)

section \<open>The recognised codes\<close>

text \<open>
  C1. The codes 0, 1 and 2 are formatted as the names of their constants:
  0 gives \<^verbatim>\<open>BT_TRANSPORT_AUTO\<close>, 1 gives \<^verbatim>\<open>BT_TRANSPORT_BR_EDR\<close> and 2 gives
  \<^verbatim>\<open>BT_TRANSPORT_LE\<close>.
\<close>

theorem bt_transport_text_recognised:
  "bt_transport_text 0 = ''BT_TRANSPORT_AUTO''
   \<and> bt_transport_text 1 = ''BT_TRANSPORT_BR_EDR''
   \<and> bt_transport_text 2 = ''BT_TRANSPORT_LE''"
  by (simp add: bt_transport_text_def BT_TRANSPORT_AUTO_def BT_TRANSPORT_BR_EDR_def
      BT_TRANSPORT_LE_def)

section \<open>Unrecognised codes\<close>

text \<open>
  C2. Every code other than 0, 1 and 2 is formatted as \<^verbatim>\<open>UNKNOWN[<value>]\<close>, where
  \<^verbatim>\<open><value>\<close> is the decimal representation of the code: the string the function
  puts between the brackets is a decimal representation of the code's value, and it is
  the only one.
\<close>

theorem bt_transport_text_unknown:
  assumes "transport \<notin> {0, 1, 2}"
  shows "bt_transport_text transport = ''UNKNOWN['' @ to_string (uint transport) @ '']''
    \<and> decimal_representation (to_string (uint transport)) (unat transport)
    \<and> (\<forall>s. decimal_representation s (unat transport) \<longrightarrow> s = to_string (uint transport))"
  using assms
  by (simp add: bt_transport_text_fallback to_string_byte nat_digits_decimal
      decimal_representation_unique)

theorem bt_transport_text_unknown_witness:
  "(255 :: tBT_TRANSPORT) \<notin> {0, 1, 2} \<and> bt_transport_text 255 = ''UNKNOWN[255]''
   \<and> decimal_representation ''255'' 255"
  using bt_transport_text_unknown [of 255]
  by (simp add: to_string_def nat_digits.simps digit_char_table)

text \<open>
  C9. The label starts with \<^verbatim>\<open>UNKNOWN[\<close> exactly when the code is none of 0, 1 and 2:
  the fallback branch is taken for the unrecognised codes and for no recognised one.
\<close>

theorem bt_transport_text_unknown_prefix:
  "prefix ''UNKNOWN['' (bt_transport_text transport) \<longleftrightarrow> transport \<notin> {0, 1, 2}"
  by (cases "transport \<in> {0, 1, 2}") (auto simp: bt_transport_text_names bt_transport_text_fallback)

section \<open>Totality and shape of the label\<close>

text \<open>
  C3. The function is total on the 256 values of a byte and never fails: whatever byte
  the reference points to and whatever the rest of the memory holds, running the body
  ends in a \<^verbatim>\<open>return\<close> statement, never past the end of the \<^verbatim>\<open>switch\<close>. The
  string returned is the label of the code: for a recognised code one of the three
  names, and for an unrecognised code (which is no error) the fallback string around
  the decimal representation of the code.
\<close>

theorem bt_transport_text_total:
  "card (UNIV :: tBT_TRANSPORT set) = 256
   \<and> (\<exists>label. fst (bt_transport_text_call transport mem) = Returned label
        \<and> label = bt_transport_text (mem transport)
        \<and> (mem transport \<in> {0, 1, 2} \<longrightarrow> label \<in>
              {''BT_TRANSPORT_AUTO'', ''BT_TRANSPORT_BR_EDR'', ''BT_TRANSPORT_LE''})
        \<and> (mem transport \<notin> {0, 1, 2} \<longrightarrow>
              (\<exists>d. decimal_representation d (unat (mem transport))
                \<and> label = ''UNKNOWN['' @ d @ '']'')))"
proof -
  have "card (UNIV :: tBT_TRANSPORT set) = 256"
    by (simp add: card_word)
  moreover have "fst (bt_transport_text_call transport mem)
      = Returned (bt_transport_text (mem transport))"
    by (simp add: bt_transport_text_call_run)
  moreover have "bt_transport_text (mem transport) \<in>
      {''BT_TRANSPORT_AUTO'', ''BT_TRANSPORT_BR_EDR'', ''BT_TRANSPORT_LE''}"
    if "mem transport \<in> {0, 1, 2}"
    using that by (auto simp: bt_transport_text_names)
  moreover have "\<exists>d. decimal_representation d (unat (mem transport))
      \<and> bt_transport_text (mem transport) = ''UNKNOWN['' @ d @ '']''"
    if "mem transport \<notin> {0, 1, 2}"
    using that nat_digits_decimal [of "unat (mem transport)"]
    by (auto simp: bt_transport_text_fallback)
  ultimately show ?thesis by blast
qed

theorem bt_transport_text_total_witness:
  "(\<lambda>_. 255 :: tBT_TRANSPORT) (0 :: address) \<notin> {0, 1, 2}
   \<and> fst (bt_transport_text_call 0 (\<lambda>_. 255)) = Returned ''UNKNOWN[255]''
   \<and> decimal_representation ''255'' (unat (255 :: tBT_TRANSPORT))
   \<and> fst (bt_transport_text_call 0 (\<lambda>_. 1)) = Returned ''BT_TRANSPORT_BR_EDR''"
  using bt_transport_text_total [of 0 "\<lambda>_. 255"] bt_transport_text_total [of 0 "\<lambda>_. 1"]
  by (simp add: bt_transport_text_names bt_transport_text_fallback nat_digits.simps
      digit_char_table decimal_representation_def is_digit_def dec_value_def digit_value_def)

text \<open>
  C4. The label of every code is a non-empty string.
\<close>

theorem bt_transport_text_nonempty: "bt_transport_text transport \<noteq> []"
  by (cases "transport \<in> {0, 1, 2}") (auto simp: bt_transport_text_names bt_transport_text_fallback)

text \<open>
  C10. The label of every code has at least 10 and at most 19 characters; 10 is reached by
  the fallback label of a one-digit code and 19 by \<^verbatim>\<open>BT_TRANSPORT_BR_EDR\<close>.
\<close>

theorem bt_transport_text_length:
  "10 \<le> length (bt_transport_text transport) \<and> length (bt_transport_text transport) \<le> 19
   \<and> length (bt_transport_text 3) = 10 \<and> length (bt_transport_text 1) = 19"
proof -
  have "10 \<le> length (bt_transport_text transport) \<and> length (bt_transport_text transport) \<le> 19"
  proof (cases "transport \<in> {0, 1, 2}")
    case True
    then show ?thesis by (auto simp: bt_transport_text_names)
  next
    case False
    then show ?thesis
      using length_nat_digits_byte [OF unat_byte, of transport]
      by (simp add: bt_transport_text_fallback)
  qed
  moreover have "length (bt_transport_text 3) = 10"
    by (simp add: bt_transport_text_fallback nat_digits_small)
  ultimately show ?thesis by (simp add: bt_transport_text_names)
qed

text \<open>
  C8. The function is injective: two different codes never get the same label.
\<close>

theorem bt_transport_text_injective:
  assumes "a \<noteq> b"
  shows "bt_transport_text a \<noteq> bt_transport_text b"
proof -
  have names: "bt_transport_text t \<in> {''BT_TRANSPORT_AUTO'', ''BT_TRANSPORT_BR_EDR'', ''BT_TRANSPORT_LE''}"
    if "t \<in> {0, 1, 2}" for t
    using that by (auto simp: bt_transport_text_names)
  show ?thesis
  proof (cases "a \<in> {0, 1, 2}"; cases "b \<in> {0, 1, 2}")
    assume "a \<in> {0, 1, 2}" "b \<in> {0, 1, 2}"
    with assms show ?thesis by (auto simp: bt_transport_text_names)
  next
    assume "a \<in> {0, 1, 2}" "b \<notin> {0, 1, 2}"
    then show ?thesis using names [of a] by (auto simp: bt_transport_text_fallback)
  next
    assume "a \<notin> {0, 1, 2}" "b \<in> {0, 1, 2}"
    then show ?thesis using names [of b] by (auto simp: bt_transport_text_fallback)
  next
    assume a: "a \<notin> {0, 1, 2}" and b: "b \<notin> {0, 1, 2}"
    from assms have "unat a \<noteq> unat b" by (simp add: word_unat_eq_iff)
    then have "nat_digits (unat a) \<noteq> nat_digits (unat b)"
      using nat_digits_inj by blast
    with a b show ?thesis by (simp add: bt_transport_text_fallback)
  qed
qed

theorem bt_transport_text_injective_witness:
  "(3 :: tBT_TRANSPORT) \<noteq> 255 \<and> bt_transport_text 3 \<noteq> bt_transport_text 255
   \<and> bt_transport_text 3 = ''UNKNOWN[3]'' \<and> bt_transport_text 255 = ''UNKNOWN[255]''"
  using bt_transport_text_injective [of 3 255]
  by (simp add: bt_transport_text_fallback nat_digits.simps digit_char_table)

section \<open>Purity\<close>

text \<open>
  C5. The function is deterministic and pure: running the body yields the same outcome
  in any two memories that hold the same code behind the reference, wherever the
  reference points and whatever the rest of each memory holds, so the body reads no
  state but its input; and calling again in the memory the first call left behind
  yields the same outcome again.
\<close>

theorem bt_transport_text_deterministic:
  assumes "mem transport = mem' transport'"
  shows "fst (bt_transport_text_call transport mem) = fst (bt_transport_text_call transport' mem')
    \<and> fst (bt_transport_text_call transport (snd (bt_transport_text_call transport mem)))
        = fst (bt_transport_text_call transport mem)"
  using assms by (simp add: bt_transport_text_call_run)

theorem bt_transport_text_deterministic_witness:
  "(\<lambda>_. 7 :: tBT_TRANSPORT) (0 :: address) = ((\<lambda>_. 0)(4 := 7)) (4 :: address)
   \<and> fst (bt_transport_text_call 0 (\<lambda>_. 7)) = fst (bt_transport_text_call 4 ((\<lambda>_. 0)(4 := 7)))
   \<and> fst (bt_transport_text_call 0 (\<lambda>_. 7)) = Returned ''UNKNOWN[7]''
   \<and> fst (bt_transport_text_call 4 ((\<lambda>_. 0)(4 := 7))) = Returned ''UNKNOWN[7]''"
  using bt_transport_text_deterministic [of "\<lambda>_. 7" 0 "(\<lambda>_. 0)(4 := 7)" 4]
  by (simp add: bt_transport_text_call_run bt_transport_text_fallback nat_digits.simps
      digit_char_table)

text \<open>
  C7. A call has no side effect and keeps nothing of its input: running the body leaves
  every byte of the memory as it was, the byte behind the reference and every other
  object alike, so the returned string is all the call produces.
\<close>

theorem bt_transport_text_no_side_effect:
  "snd (bt_transport_text_call transport mem) = mem
   \<and> snd (bt_transport_text_call transport mem) transport = mem transport"
  by (simp add: bt_transport_text_call_run)

section \<open>The exported constants\<close>

text \<open>
  C6. The header exports exactly three integer constants: \<^verbatim>\<open>BT_TRANSPORT_AUTO\<close> with the
  value 0, \<^verbatim>\<open>BT_TRANSPORT_BR_EDR\<close> with the value 1 and \<^verbatim>\<open>BT_TRANSPORT_LE\<close> with the
  value 2. The helper macro of the header is removed before the header ends.
\<close>

theorem exported_transport_constants:
  "integer_constants exported_macros =
      [(''BT_TRANSPORT_AUTO'', BT_TRANSPORT_AUTO), (''BT_TRANSPORT_BR_EDR'', BT_TRANSPORT_BR_EDR),
       (''BT_TRANSPORT_LE'', BT_TRANSPORT_LE)]
   \<and> length (integer_constants exported_macros) = 3
   \<and> BT_TRANSPORT_AUTO = 0 \<and> BT_TRANSPORT_BR_EDR = 1 \<and> BT_TRANSPORT_LE = 2"
  by (simp add: exported_macros_def bt_transport_h_directives_def BT_TRANSPORT_AUTO_def
      BT_TRANSPORT_BR_EDR_def BT_TRANSPORT_LE_def)

end
